theory Spec2Isabelle
  imports Complex_Main "HOL-Library.Char_ord" "HOL-Library.List_Lexorder" "HOL-Library.Multiset"
begin

section \<open>The CPI dashboard of \<^verbatim>\<open>cpi_update.py\<close>\<close>

text \<open>
  The program loads one table with a SQL query, normalises a few columns (lines 40--47) and
  then serves Dash callbacks that filter that table and build plotly figures. The table is a
  list of rows (a pandas DataFrame, in row order); a column is the list of one field.
  Python strings are \<^typ>\<open>string\<close>, compared by code point (\<^theory_text>\<open>Char_ord\<close> and
  the lexicographic order of \<^theory_text>\<open>List_Lexorder\<close>); the float columns are carried
  through unchanged and are modelled as \<^typ>\<open>real\<close>.
\<close>

subsection \<open>Python's \<^verbatim>\<open>str\<close> on integers and pandas' \<^verbatim>\<open>str.zfill\<close>\<close>

definition digit_char :: "nat \<Rightarrow> char" where
  "digit_char d = char_of (48 + d)"

fun str_nat :: "nat \<Rightarrow> string" where
  "str_nat n = (if n < 10 then [digit_char n] else str_nat (n div 10) @ [digit_char (n mod 10)])"

declare str_nat.simps [simp del]

definition str_int :: "int \<Rightarrow> string" where
  \<comment> \<open>\<^verbatim>\<open>astype(str)\<close> on an integer column: the decimal digits, with a sign when negative.\<close>
  "str_int i = (if i < 0 then CHR ''-'' # str_nat (nat (- i)) else str_nat (nat i))"

definition zfill :: "nat \<Rightarrow> string \<Rightarrow> string" where
  \<comment> \<open>\<^verbatim>\<open>.str.zfill(width)\<close>: zeros on the left up to the width; a string that is long
      enough is unchanged.\<close>
  "zfill width s = replicate (width - length s) CHR ''0'' @ s"

subsection \<open>The table\<close>

text \<open>A row as the query returns it (lines 33--36 of the source).\<close>

record sql_row =
  sql_year :: int
  sql_month :: string
  sql_month_number :: int
  sql_state :: string
  sql_sector :: string
  sql_grp :: string
  sql_subgroup :: "string option"
  sql_base_year :: string
  sql_inflation :: real
  sql_index :: real
  sql_year_month :: string
  sql_xaxislabel :: string

text \<open>A row of \<^verbatim>\<open>cpi_data\<close> after the normalisation of lines 42--47.\<close>

record cpi_row =
  year :: int
  month :: string
  month_number :: string
  state :: string
  sector :: string
  grp :: string
  subgroup :: "string option"
  base_year :: string
  inflation :: real
  index :: real
  year_month :: string
  xaxislabel :: string
  year_month2 :: string

definition normalise :: "sql_row \<Rightarrow> cpi_row" where
  \<comment> \<open>The column assignments of lines 42, 43, 45, 46 and 47, row by row.\<close>
  "normalise q =
     (let mn = zfill 2 (str_int (sql_month_number q));
          ym = str_int (sql_year q) @ mn
      in \<lparr> year = sql_year q, month = sql_month q, month_number = mn,
           state = sql_state q, sector = sql_sector q, grp = sql_grp q,
           subgroup = sql_subgroup q, base_year = sql_base_year q,
           inflation = sql_inflation q, index = sql_index q,
           year_month = ym,
           xaxislabel = take 4 (sql_xaxislabel q) @ ''-'' @ take 3 (drop 4 (sql_xaxislabel q)),
           year_month2 = take 4 ym @ ''-'' @ drop 4 ym \<rparr>)"

definition sort_values :: "(cpi_row \<Rightarrow> 'k::linorder) \<Rightarrow> cpi_row list \<Rightarrow> cpi_row list" where
  \<comment> \<open>\<^verbatim>\<open>DataFrame.sort_values(column)\<close>: a new frame, ascending in the column. Rows with
      equal keys keep their order here; pandas leaves the order of ties open.\<close>
  "sort_values col df = sort_key col df"

definition load :: "sql_row list \<Rightarrow> cpi_row list" where
  \<comment> \<open>Lines 40--47: \<^verbatim>\<open>cpi_data\<close> from the query's rows. The sort of line 44 is by
      \<^verbatim>\<open>year_month\<close>; the later column assignments keep the row order.\<close>
  "load raw_data = sort_values year_month (map normalise raw_data)"

fun unique :: "'a list \<Rightarrow> 'a list" where
  \<comment> \<open>\<^verbatim>\<open>Series.unique()\<close>: the distinct values in order of first appearance.\<close>
  "unique [] = []"
| "unique (v # vs) = v # unique (filter (\<lambda>w. w \<noteq> v) vs)"

subsection \<open>Dropdown values\<close>

text \<open>
  A dropdown hands its value to a callback as JSON. The year dropdown is a multi-select
  whose options are the years of the table (integers) and the string \<^verbatim>\<open>'Select All'\<close>;
  its initial value is the bare string \<^verbatim>\<open>"Select All"\<close> (line 177), afterwards a list
  of the chosen option values. A single-select dropdown gives a string, or \<^verbatim>\<open>None\<close>
  when nothing is selected.
\<close>

datatype year_item = YearVal int | StrVal string

datatype year_selection = SelStr string | SelList "year_item list"

fun is_substring :: "string \<Rightarrow> string \<Rightarrow> bool" where
  \<comment> \<open>Python's \<^verbatim>\<open>p in s\<close> on two strings.\<close>
  "is_substring p [] = (p = [])"
| "is_substring p (c # cs) = (take (length p) (c # cs) = p \<or> is_substring p cs)"

definition contains_select_all :: "year_selection \<Rightarrow> bool" where
  \<comment> \<open>\<^verbatim>\<open>'Select All' in selected_years\<close>: a substring test on a string, membership on a list.\<close>
  "contains_select_all selected_years =
     (case selected_years of
        SelStr s \<Rightarrow> is_substring ''Select All'' s
      | SelList vs \<Rightarrow> StrVal ''Select All'' \<in> set vs)"

definition iterate :: "year_selection \<Rightarrow> year_item list" where
  \<comment> \<open>\<^verbatim>\<open>for year in selected_years\<close>: the characters of a string, the elements of a list.\<close>
  "iterate selected_years =
     (case selected_years of SelStr s \<Rightarrow> map (\<lambda>c. StrVal [c]) s | SelList vs \<Rightarrow> vs)"

definition resolve_selected_years :: "cpi_row list \<Rightarrow> year_selection \<Rightarrow> year_item list" where
  \<comment> \<open>Lines 320--323 (and 404--407): the new value of \<^verbatim>\<open>selected_years\<close>.\<close>
  "resolve_selected_years cpi_data selected_years =
     (if contains_select_all selected_years
      then map YearVal (unique (map year cpi_data))
      else filter (\<lambda>y. y \<noteq> StrVal ''Select All'') (iterate selected_years))"

definition isin :: "int \<Rightarrow> year_item list \<Rightarrow> bool" where
  \<comment> \<open>\<^verbatim>\<open>cpi_data['year'].isin(values)\<close> for one row: the integer year is among the values
      (a string among them equals no year).\<close>
  "isin v vals = (YearVal v \<in> set vals)"

subsection \<open>The menu callbacks\<close>

text \<open>An option \<^verbatim>\<open>{'label': l, 'value': v}\<close> is the pair \<open>(l, v)\<close>.\<close>

definition update_year_dropdown :: "cpi_row list \<Rightarrow> string option \<Rightarrow> (year_item \<times> year_item) list" where
  \<comment> \<open>Lines 275--280. A base year is truthy when it is neither \<^verbatim>\<open>None\<close> nor empty.\<close>
  "update_year_dropdown cpi_data selected_base_year =
     (if selected_base_year \<noteq> None \<and> selected_base_year \<noteq> Some []
      then (let filtered_years =
                  unique (map year (filter (\<lambda>r. Some (base_year r) = selected_base_year) cpi_data))
            in [(StrVal ''Select All'', StrVal ''Select All'')]
               @ map (\<lambda>y. (YearVal y, YearVal y)) (sort filtered_years))
      else [(StrVal ''Select All'', StrVal ''Select All'')]
           @ map (\<lambda>y. (YearVal y, YearVal y)) (sort (unique (map year cpi_data))))"

definition update_sector_dropdown :: "cpi_row list \<Rightarrow> string option \<Rightarrow> (string \<times> string) list" where
  \<comment> \<open>Lines 288--291. The comparison \<^verbatim>\<open>cpi_data['state'] == selected_state\<close> is false in
      every row when the state is \<^verbatim>\<open>None\<close>; the function has no other case for it.\<close>
  "update_sector_dropdown cpi_data selected_state =
     (let filtered_df = filter (\<lambda>r. Some (state r) = selected_state) cpi_data;
          sectors = unique (map sector filtered_df)
      in map (\<lambda>s. (s, s)) sectors)"

definition update_group_dropdown :: "cpi_row list \<Rightarrow> string option \<Rightarrow> (string \<times> string) list" where
  \<comment> \<open>Lines 298--303.\<close>
  "update_group_dropdown cpi_data selected_sector =
     (let filtered_df = cpi_data;
          filtered_df = (if selected_sector \<noteq> None
                         then filter (\<lambda>r. Some (sector r) = selected_sector) filtered_df
                         else filtered_df);
          groups = unique (map grp filtered_df)
      in map (\<lambda>g. (g, g)) groups)"

subsection \<open>Figures\<close>

text \<open>
  A plotly figure is its list of traces and its layout. The layout is kept as the property
  tree plotly builds, restricted to the properties this program sets; a property nobody has
  set is \<open>None\<close>. \<^verbatim>\<open>update_layout(**kwargs)\<close> applies its keyword arguments one after the
  other, in the order they are written. A keyword with underscores names a path:
  \<^verbatim>\<open>yaxis_title\<close> is \<^verbatim>\<open>layout.yaxis.title\<close> and \<^verbatim>\<open>yaxis_title_font\<close> is
  \<^verbatim>\<open>layout.yaxis.title.font\<close>. A string assigned to a \<^verbatim>\<open>title\<close> property becomes a new
  title object with that text. A dict given for an axis updates the axis property by
  property. So \<^verbatim>\<open>yaxis_title="Index"\<close> and the \<^verbatim>\<open>title\<close> inside a later
  \<^verbatim>\<open>yaxis=dict(title=...)\<close> write the same property, and the later one stays.
\<close>

record font =
  font_size :: int
  font_family :: string
  font_colour :: string
  font_weight :: string

record scatter =
  sc_x :: "string list"
  sc_y :: "real list"
  sc_mode :: string
  sc_name :: string
  sc_line_color :: string
  sc_yaxis :: string
  sc_hovertemplate :: string

record title_obj =
  tt_text :: "string option"
  tt_font :: "font option"
  tt_x :: "real option"

record axis =
  ax_title :: title_obj
  ax_side :: "string option"
  ax_color :: "string option"
  ax_showgrid :: "bool option"
  ax_gridcolor :: "string option"
  ax_tickangle :: "int option"

record layout =
  lo_title :: title_obj
  lo_xaxis :: axis
  lo_yaxis :: axis
  lo_template :: "string option"
  lo_font_color :: "string option"
  lo_margin_t :: "int option"

text \<open>The entries of an axis dict, and the keyword arguments of \<^verbatim>\<open>update_layout\<close>.\<close>

datatype axis_arg =
  Title string | Side string | Color string | Showgrid bool | Gridcolor string | Tickangle int

datatype layout_kwarg =
    xaxis_title string
  | yaxis_title string
  | template string
  | title_font font
  | xaxis_title_font font
  | yaxis_title_font font
  | font_color string
  | yaxis "axis_arg list"
  | xaxis "axis_arg list"
  | margin_t int
  | title_x real

record figure =
  fig_data :: "scatter list"
  fig_layout :: "layout option"

definition empty_title :: title_obj where
  "empty_title = \<lparr> tt_text = None, tt_font = None, tt_x = None \<rparr>"

definition empty_axis :: axis where
  "empty_axis = \<lparr> ax_title = empty_title, ax_side = None, ax_color = None, ax_showgrid = None,
                   ax_gridcolor = None, ax_tickangle = None \<rparr>"

definition empty_layout :: layout where
  "empty_layout = \<lparr> lo_title = empty_title, lo_xaxis = empty_axis, lo_yaxis = empty_axis,
                     lo_template = None, lo_font_color = None, lo_margin_t = None \<rparr>"

fun update_axis :: "axis_arg \<Rightarrow> axis \<Rightarrow> axis" where
  \<comment> \<open>One entry of an axis dict. A title given as a string replaces the title object.\<close>
  "update_axis (Title s) ax = ax \<lparr> ax_title := empty_title \<lparr> tt_text := Some s \<rparr> \<rparr>"
| "update_axis (Side s) ax = ax \<lparr> ax_side := Some s \<rparr>"
| "update_axis (Color s) ax = ax \<lparr> ax_color := Some s \<rparr>"
| "update_axis (Showgrid v) ax = ax \<lparr> ax_showgrid := Some v \<rparr>"
| "update_axis (Gridcolor s) ax = ax \<lparr> ax_gridcolor := Some s \<rparr>"
| "update_axis (Tickangle n) ax = ax \<lparr> ax_tickangle := Some n \<rparr>"

fun update_layout_kwarg :: "layout_kwarg \<Rightarrow> layout \<Rightarrow> layout" where
  \<comment> \<open>One keyword argument of \<^verbatim>\<open>update_layout\<close>; \<^verbatim>\<open>margin_t\<close> stands for
      \<^verbatim>\<open>margin=dict(t=...)\<close>.\<close>
  "update_layout_kwarg (xaxis_title s) lo = lo \<lparr> lo_xaxis := update_axis (Title s) (lo_xaxis lo) \<rparr>"
| "update_layout_kwarg (yaxis_title s) lo = lo \<lparr> lo_yaxis := update_axis (Title s) (lo_yaxis lo) \<rparr>"
| "update_layout_kwarg (template s) lo = lo \<lparr> lo_template := Some s \<rparr>"
| "update_layout_kwarg (title_font f) lo = lo \<lparr> lo_title := (lo_title lo) \<lparr> tt_font := Some f \<rparr> \<rparr>"
| "update_layout_kwarg (xaxis_title_font f) lo =
     lo \<lparr> lo_xaxis := (lo_xaxis lo) \<lparr> ax_title := (ax_title (lo_xaxis lo)) \<lparr> tt_font := Some f \<rparr> \<rparr> \<rparr>"
| "update_layout_kwarg (yaxis_title_font f) lo =
     lo \<lparr> lo_yaxis := (lo_yaxis lo) \<lparr> ax_title := (ax_title (lo_yaxis lo)) \<lparr> tt_font := Some f \<rparr> \<rparr> \<rparr>"
| "update_layout_kwarg (font_color s) lo = lo \<lparr> lo_font_color := Some s \<rparr>"
| "update_layout_kwarg (yaxis args) lo = lo \<lparr> lo_yaxis := fold update_axis args (lo_yaxis lo) \<rparr>"
| "update_layout_kwarg (xaxis args) lo = lo \<lparr> lo_xaxis := fold update_axis args (lo_xaxis lo) \<rparr>"
| "update_layout_kwarg (margin_t n) lo = lo \<lparr> lo_margin_t := Some n \<rparr>"
| "update_layout_kwarg (title_x v) lo = lo \<lparr> lo_title := (lo_title lo) \<lparr> tt_x := Some v \<rparr> \<rparr>"

definition Figure :: figure where
  \<comment> \<open>\<^verbatim>\<open>go.Figure()\<close>: no trace, and a layout nobody has touched.\<close>
  "Figure = \<lparr> fig_data = [], fig_layout = None \<rparr>"

definition add_trace :: "scatter \<Rightarrow> figure \<Rightarrow> figure" where
  "add_trace tr fig = fig \<lparr> fig_data := fig_data fig @ [tr] \<rparr>"

definition update_layout :: "layout_kwarg list \<Rightarrow> figure \<Rightarrow> figure" where
  \<comment> \<open>\<^verbatim>\<open>fig.update_layout(**kwargs)\<close>: the keyword arguments applied in their order.\<close>
  "update_layout kwargs fig =
     fig \<lparr> fig_layout :=
             Some (fold update_layout_kwarg kwargs
                     (case fig_layout fig of None \<Rightarrow> empty_layout | Some lo \<Rightarrow> lo)) \<rparr>"

definition get_default_dropdown_values :: "string \<times> string \<times> string \<times> string" where
  \<comment> \<open>Lines 68--73.\<close>
  "get_default_dropdown_values = (''All India'', ''Combined'', ''General'', ''Index'')"

subsection \<open>The render callback\<close>

definition update_plot_filtered_df ::
  "cpi_row list \<Rightarrow> string \<Rightarrow> string \<Rightarrow> string \<Rightarrow> year_selection \<Rightarrow> string \<Rightarrow> cpi_row list" where
  \<comment> \<open>Lines 319--328 of \<^verbatim>\<open>update_plot\<close>: the value of \<^verbatim>\<open>filtered_df\<close> after the sort.
      The copy of line 319 is overwritten at line 325, which filters \<^verbatim>\<open>cpi_data\<close> itself.\<close>
  "update_plot_filtered_df cpi_data st se g selected_years base =
     (let selected_years = resolve_selected_years cpi_data selected_years;
          filtered_df = filter (\<lambda>r. isin (year r) selected_years) cpi_data;
          filtered_df = filter (\<lambda>r. state r = st) filtered_df;
          filtered_df = filter (\<lambda>r. sector r = se \<and> grp r = g \<and> base_year r = base) filtered_df
      in sort_values year_month2 filtered_df)"

definition update_plot_fig :: "cpi_row list \<Rightarrow> string \<Rightarrow> figure" where
  \<comment> \<open>Lines 331--379 of \<^verbatim>\<open>update_plot\<close>: the figure built from \<^verbatim>\<open>filtered_df\<close>. The
      second branch is the source's \<^verbatim>\<open>else\<close>: every indicator other than \<^verbatim>\<open>'Index'\<close>.\<close>
  "update_plot_fig filtered_df plot_type =
     (let fig = Figure
      in if plot_type = ''Index''
         then
            update_layout
              [ xaxis_title ''Year'',
                yaxis_title ''Index'',
                template ''plotly_white'',
                title_font \<lparr> font_size = 25, font_family = ''Arial, sans-serif'',
                             font_colour = ''black'', font_weight = ''bold'' \<rparr>,
                xaxis_title_font \<lparr> font_size = 18, font_family = ''Arial, sans-serif'',
                                   font_colour = ''black'', font_weight = ''bold'' \<rparr>,
                yaxis_title_font \<lparr> font_size = 18, font_family = ''Arial, sans-serif'',
                                   font_colour = ''black'', font_weight = ''bold'' \<rparr>,
                font_color ''black'',
                yaxis [Title ''<b>Index</b>'', Side ''left'', Color ''black'', Showgrid True],
                xaxis [Showgrid True, Gridcolor ''lightgray'', Tickangle 270],
                margin_t 0,
                title_x 0.5 ]
              (add_trace
                 \<lparr> sc_x = map year_month2 filtered_df, sc_y = map index filtered_df,
                   sc_mode = ''lines+markers'', sc_name = ''Index'', sc_line_color = ''#0F4366'',
                   sc_yaxis = ''y'', sc_hovertemplate = ''%{x}, Index %{y:.2f}<extra></extra>'' \<rparr>
                 fig)
         else
            update_layout
              [ xaxis_title ''Year'',
                yaxis_title ''Inflation (in %)'',
                template ''plotly_white'',
                title_font \<lparr> font_size = 25, font_family = ''Arial, sans-serif'',
                             font_colour = ''black'', font_weight = ''bold'' \<rparr>,
                xaxis_title_font \<lparr> font_size = 18, font_family = ''Arial, sans-serif'',
                                   font_colour = ''black'', font_weight = ''bold'' \<rparr>,
                yaxis_title_font \<lparr> font_size = 18, font_family = ''Arial, sans-serif'',
                                   font_colour = ''black'', font_weight = ''bold'' \<rparr>,
                font_color ''black'',
                yaxis [Title ''<b>Inflation</b>'', Side ''left'', Color ''black'', Showgrid True],
                xaxis [Showgrid True, Gridcolor ''lightgray'', Tickangle 270],
                margin_t 0,
                title_x 0.5 ]
              (add_trace
                 \<lparr> sc_x = map year_month2 filtered_df, sc_y = map inflation filtered_df,
                   sc_mode = ''lines+markers'', sc_name = ''Inflation'', sc_line_color = ''#EF553B'',
                   sc_yaxis = ''y'', sc_hovertemplate = ''%{x}, Inflation: %{y:.2f}%<extra></extra>'' \<rparr>
                 fig))"

definition update_plot ::
  "cpi_row list \<Rightarrow> int \<Rightarrow> string \<Rightarrow> string \<Rightarrow> string \<Rightarrow> string \<Rightarrow> year_selection \<Rightarrow> string \<Rightarrow> figure" where
  \<comment> \<open>Lines 317--382.\<close>
  "update_plot cpi_data n_clicks st se g plot_type selected_years base =
     (if 0 < n_clicks \<or> (st, se, g, plot_type) = get_default_dropdown_values
      then update_plot_fig (update_plot_filtered_df cpi_data st se g selected_years base) plot_type
      else Figure)"

subsection \<open>The download callback\<close>

definition download_plot_filtered_df ::
  "cpi_row list \<Rightarrow> string \<Rightarrow> string \<Rightarrow> string \<Rightarrow> year_selection \<Rightarrow> string \<Rightarrow> cpi_row list" where
  \<comment> \<open>Lines 403--411 of \<^verbatim>\<open>download_plot\<close>. \<^verbatim>\<open>selected_years\<close> is computed as in the
      render callback (lines 404--407) and then never read: the source has no \<^verbatim>\<open>isin\<close>
      line here.\<close>
  "download_plot_filtered_df cpi_data st se g selected_years base =
     (let filtered_df = cpi_data;
          selected_years = resolve_selected_years cpi_data selected_years;
          filtered_df = filter (\<lambda>r. state r = st) filtered_df;
          filtered_df = filter (\<lambda>r. sector r = se \<and> grp r = g \<and> base_year r = base) filtered_df
      in sort_values year_month2 filtered_df)"

definition download_plot_fig :: "cpi_row list \<Rightarrow> string \<Rightarrow> figure" where
  \<comment> \<open>Lines 413--459 of \<^verbatim>\<open>download_plot\<close>: the figure that line 465 serialises. The
      second branch is an \<^verbatim>\<open>elif plot_type == 'Inflation'\<close>; any other indicator leaves
      the empty figure.\<close>
  "download_plot_fig filtered_df plot_type =
     (let fig = Figure
      in if plot_type = ''Index''
         then
            update_layout
              [ xaxis_title ''Year'',
                yaxis_title ''Index'',
                template ''plotly_white'',
                title_font \<lparr> font_size = 25, font_family = ''Arial, sans-serif'',
                             font_colour = ''black'', font_weight = ''bold'' \<rparr>,
                xaxis_title_font \<lparr> font_size = 18, font_family = ''Arial, sans-serif'',
                                   font_colour = ''black'', font_weight = ''bold'' \<rparr>,
                yaxis_title_font \<lparr> font_size = 18, font_family = ''Arial, sans-serif'',
                                   font_colour = ''black'', font_weight = ''bold'' \<rparr>,
                font_color ''black'',
                yaxis [Title ''<b>Index</b>'', Side ''left'', Color ''black'', Showgrid True],
                xaxis [Showgrid True, Gridcolor ''lightgray'', Tickangle 270],
                margin_t 0,
                title_x 0.5 ]
              (add_trace
                 \<lparr> sc_x = map year_month2 filtered_df, sc_y = map index filtered_df,
                   sc_mode = ''lines+markers'', sc_name = ''Index'', sc_line_color = ''#0F4366'',
                   sc_yaxis = ''y'', sc_hovertemplate = ''%{x}, Index %{y:.2f}<extra></extra>'' \<rparr>
                 fig)
         else if plot_type = ''Inflation''
         then
            update_layout
              [ xaxis_title ''Year'',
                yaxis_title ''Inflation (in %)'',
                template ''plotly_white'',
                title_font \<lparr> font_size = 25, font_family = ''Arial, sans-serif'',
                             font_colour = ''black'', font_weight = ''bold'' \<rparr>,
                xaxis_title_font \<lparr> font_size = 18, font_family = ''Arial, sans-serif'',
                                   font_colour = ''black'', font_weight = ''bold'' \<rparr>,
                yaxis_title_font \<lparr> font_size = 18, font_family = ''Arial, sans-serif'',
                                   font_colour = ''black'', font_weight = ''bold'' \<rparr>,
                font_color ''black'',
                yaxis [Title ''<b>Inflation</b>'', Side ''left'', Color ''black'', Showgrid True],
                xaxis [Showgrid True, Gridcolor ''lightgray'', Tickangle 270],
                margin_t 0,
                title_x 0.5 ]
              (add_trace
                 \<lparr> sc_x = map year_month2 filtered_df, sc_y = map inflation filtered_df,
                   sc_mode = ''lines+markers'', sc_name = ''Inflation'', sc_line_color = ''#EF553B'',
                   sc_yaxis = ''y'', sc_hovertemplate = ''%{x}, Inflation: %{y:.2f}%<extra></extra>'' \<rparr>
                 fig)
         else fig)"

definition download_plot ::
  "(figure \<Rightarrow> 'bytes) \<Rightarrow> cpi_row list \<Rightarrow> string list \<Rightarrow> int \<Rightarrow> string \<Rightarrow> string \<Rightarrow> string \<Rightarrow> string
     \<Rightarrow> year_selection \<Rightarrow> string \<Rightarrow> ('bytes \<times> string) option" where
  \<comment> \<open>Lines 396--473. \<open>triggered\<close> is the list of the \<^verbatim>\<open>prop_id\<close>s of
      \<^verbatim>\<open>dash.callback_context.triggered\<close>; \<open>to_image\<close> stands for plotly's
      \<^verbatim>\<open>pio.to_image(fig, format="svg")\<close>; the result is the content and the file name given
      to \<^verbatim>\<open>dcc.send_bytes\<close>, or \<^verbatim>\<open>None\<close>.\<close>
  "download_plot to_image cpi_data triggered download_clicks st se g plot_type selected_years base =
     (case triggered of
        [] \<Rightarrow> None
      | prop_id # _ \<Rightarrow>
          (let button_id = takeWhile (\<lambda>c. c \<noteq> CHR ''.'') prop_id
           in if button_id = ''download-button''
              then (let filtered_df =
                          download_plot_filtered_df cpi_data st se g selected_years base;
                        fig = download_plot_fig filtered_df plot_type;
                        svg_str = to_image fig
                    in Some (svg_str, ''plot.svg''))
              else None))"

subsection \<open>Reading the spec's terms off the model\<close>

text \<open>
  The spec's integer key \<open>year_month_key = year*100 + month_number\<close>. In \<^verbatim>\<open>cpi_data\<close>
  the month number is the zero-padded string of line 42, so the key reads its decimal value.
\<close>

definition digit_val :: "char \<Rightarrow> nat" where
  "digit_val c = of_char c - 48"

definition nat_of_str :: "string \<Rightarrow> nat" where
  "nat_of_str s = foldl (\<lambda>a c. 10 * a + digit_val c) 0 s"

definition year_month_key :: "cpi_row \<Rightarrow> int" where
  "year_month_key r = year r * 100 + int (nat_of_str (month_number r))"

definition in_range :: "sql_row \<Rightarrow> bool" where
  \<comment> \<open>A four-digit year and a month number from 1 to 12.\<close>
  "in_range q =
     (1000 \<le> sql_year q \<and> sql_year q \<le> 9999 \<and> 1 \<le> sql_month_number q \<and> sql_month_number q \<le> 12)"

fun dec :: "nat \<Rightarrow> nat \<Rightarrow> string" where
  \<comment> \<open>The last \<open>k\<close> decimal digits of a number, most significant first.\<close>
  "dec 0 n = []"
| "dec (Suc k) n = dec k (n div 10) @ [digit_char (n mod 10)]"

text \<open>The spec's ChartSeries: the \<open>(x, y)\<close> pairs of a figure's traces, in order.\<close>

definition series :: "figure \<Rightarrow> (string \<times> real) list" where
  "series fig = concat (map (\<lambda>tr. zip (sc_x tr) (sc_y tr)) (fig_data fig))"




subsection \<open>Example tables\<close>

definition sql_example :: "int \<Rightarrow> int \<Rightarrow> string \<Rightarrow> string \<Rightarrow> real \<Rightarrow> real \<Rightarrow> sql_row" where
  \<comment> \<open>A query row for sector Combined and group General.\<close>
  "sql_example y m st b idx infl =
     \<lparr> sql_year = y, sql_month = ''January'', sql_month_number = m, sql_state = st,
       sql_sector = ''Combined'', sql_grp = ''General'', sql_subgroup = None,
       sql_base_year = b, sql_inflation = infl, sql_index = idx,
       sql_year_month = str_int y @ str_int m, sql_xaxislabel = str_int y @ ''January'' \<rparr>"

definition spec_raw :: "sql_row list" where
  \<comment> \<open>The two rows of the spec's example (section 8), later month first.\<close>
  "spec_raw = [sql_example 2023 2 ''StateA'' ''2012'' 151 5.3,
               sql_example 2023 1 ''StateA'' ''2012'' 150 5]"

definition two_year_raw :: "sql_row list" where
  "two_year_raw = [sql_example 2023 1 ''StateA'' ''2012'' 150 5,
                   sql_example 2022 1 ''StateA'' ''2012'' 140 4]"

definition two_base_raw :: "sql_row list" where
  "two_base_raw = [sql_example 2011 1 ''StateA'' ''2010'' 100 3,
                   sql_example 2023 1 ''StateA'' ''2012'' 150 5]"

subsection \<open>Frames as objects\<close>

text \<open>
  A pandas frame is an object, and \<^verbatim>\<open>cpi_data\<close> is a module-level reference to one that
  every callback shares. To state what a callback does to it, the callbacks are written a
  second time over a store of frames: an address is a position in the store, and every
  pandas call the callbacks use returns a new object and writes to no existing one ---
  \<^verbatim>\<open>df.copy()\<close>, boolean indexing \<^verbatim>\<open>df[mask]\<close>, and \<^verbatim>\<open>df.sort_values(col)\<close>, which is
  called without \<^verbatim>\<open>inplace=True\<close> and whose result is bound to the local name. Reading a
  column allocates no frame. A reference held by the program is always an address of the
  store.
\<close>

type_synonym store = "cpi_row list list"

definition df_new :: "cpi_row list \<Rightarrow> store \<Rightarrow> nat \<times> store" where
  "df_new df h = (length h, h @ [df])"

definition df_copy :: "nat \<Rightarrow> store \<Rightarrow> nat \<times> store" where
  "df_copy a h = df_new (h ! a) h"

definition df_filter :: "(cpi_row \<Rightarrow> bool) \<Rightarrow> nat \<Rightarrow> store \<Rightarrow> nat \<times> store" where
  "df_filter keep a h = df_new (filter keep (h ! a)) h"

definition df_sort_values :: "(cpi_row \<Rightarrow> 'k::linorder) \<Rightarrow> nat \<Rightarrow> store \<Rightarrow> nat \<times> store" where
  "df_sort_values col a h = df_new (sort_values col (h ! a)) h"

definition extends :: "store \<Rightarrow> store \<Rightarrow> bool" where
  \<comment> \<open>Every object of the first store is in the second, at its address and unchanged.\<close>
  "extends h h' = (length h \<le> length h' \<and> take (length h) h' = h)"

definition update_year_dropdown_st ::
  "store \<Rightarrow> nat \<Rightarrow> string option \<Rightarrow> (year_item \<times> year_item) list \<times> store" where
  \<comment> \<open>Lines 275--280; line 277 indexes \<^verbatim>\<open>cpi_data\<close> with a mask.\<close>
  "update_year_dropdown_st h cpi_data selected_base_year =
     (if selected_base_year \<noteq> None \<and> selected_base_year \<noteq> Some []
      then (let (filtered, h) = df_filter (\<lambda>r. Some (base_year r) = selected_base_year) cpi_data h;
                filtered_years = unique (map year (h ! filtered))
            in ([(StrVal ''Select All'', StrVal ''Select All'')]
                  @ map (\<lambda>y. (YearVal y, YearVal y)) (sort filtered_years), h))
      else ([(StrVal ''Select All'', StrVal ''Select All'')]
              @ map (\<lambda>y. (YearVal y, YearVal y)) (sort (unique (map year (h ! cpi_data)))), h))"

definition update_sector_dropdown_st ::
  "store \<Rightarrow> nat \<Rightarrow> string option \<Rightarrow> (string \<times> string) list \<times> store" where
  \<comment> \<open>Lines 288--291.\<close>
  "update_sector_dropdown_st h cpi_data selected_state =
     (let (filtered_df, h) = df_filter (\<lambda>r. Some (state r) = selected_state) cpi_data h;
          sectors = unique (map sector (h ! filtered_df))
      in (map (\<lambda>s. (s, s)) sectors, h))"

definition update_group_dropdown_st ::
  "store \<Rightarrow> nat \<Rightarrow> string option \<Rightarrow> (string \<times> string) list \<times> store" where
  \<comment> \<open>Lines 298--303.\<close>
  "update_group_dropdown_st h cpi_data selected_sector =
     (let (filtered_df, h) = df_copy cpi_data h;
          (filtered_df, h) = (if selected_sector \<noteq> None
                              then df_filter (\<lambda>r. Some (sector r) = selected_sector) filtered_df h
                              else (filtered_df, h));
          groups = unique (map grp (h ! filtered_df))
      in (map (\<lambda>g. (g, g)) groups, h))"

definition update_plot_st ::
  "store \<Rightarrow> nat \<Rightarrow> int \<Rightarrow> string \<Rightarrow> string \<Rightarrow> string \<Rightarrow> string \<Rightarrow> year_selection \<Rightarrow> string
     \<Rightarrow> figure \<times> store" where
  \<comment> \<open>Lines 317--382, statement by statement.\<close>
  "update_plot_st h cpi_data n_clicks st se g plot_type selected_years base =
     (if 0 < n_clicks \<or> (st, se, g, plot_type) = get_default_dropdown_values
      then (let (filtered_df, h) = df_copy cpi_data h;
                selected_years = resolve_selected_years (h ! cpi_data) selected_years;
                (filtered_df, h) = df_filter (\<lambda>r. isin (year r) selected_years) cpi_data h;
                (filtered_df, h) = df_filter (\<lambda>r. state r = st) filtered_df h;
                (filtered_df, h) =
                  df_filter (\<lambda>r. sector r = se \<and> grp r = g \<and> base_year r = base) filtered_df h;
                (filtered_df, h) = df_sort_values year_month2 filtered_df h
            in (update_plot_fig (h ! filtered_df) plot_type, h))
      else (Figure, h))"

definition download_plot_st ::
  "(figure \<Rightarrow> 'bytes) \<Rightarrow> store \<Rightarrow> nat \<Rightarrow> string list \<Rightarrow> int \<Rightarrow> string \<Rightarrow> string \<Rightarrow> string \<Rightarrow> string
     \<Rightarrow> year_selection \<Rightarrow> string \<Rightarrow> ('bytes \<times> string) option \<times> store" where
  \<comment> \<open>Lines 396--473, statement by statement.\<close>
  "download_plot_st to_image h cpi_data triggered download_clicks st se g plot_type selected_years base =
     (case triggered of
        [] \<Rightarrow> (None, h)
      | prop_id # _ \<Rightarrow>
          (let button_id = takeWhile (\<lambda>c. c \<noteq> CHR ''.'') prop_id
           in if button_id = ''download-button''
              then (let (filtered_df, h) = df_copy cpi_data h;
                        selected_years = resolve_selected_years (h ! cpi_data) selected_years;
                        (filtered_df, h) = df_filter (\<lambda>r. state r = st) filtered_df h;
                        (filtered_df, h) =
                          df_filter (\<lambda>r. sector r = se \<and> grp r = g \<and> base_year r = base)
                            filtered_df h;
                        (filtered_df, h) = df_sort_values year_month2 filtered_df h;
                        fig = download_plot_fig (h ! filtered_df) plot_type;
                        svg_str = to_image fig
                    in (Some (svg_str, ''plot.svg''), h))
              else (None, h)))"

section \<open>Properties\<close>

subsection \<open>Auxiliary facts\<close>

lemma set_unique: "set (unique vs) = set vs"
  by (induction vs rule: unique.induct) auto

lemma distinct_unique: "distinct (unique vs)"
  by (induction vs rule: unique.induct) (auto simp: set_unique)

lemma length_dec: "length (dec k n) = k"
  by (induction k arbitrary: n) auto

lemma digit_char_less: "d < 10 \<Longrightarrow> e < 10 \<Longrightarrow> (digit_char d < digit_char e) = (d < e)"
  by (simp add: digit_char_def less_char_def)

lemma digit_val_digit_char: "d < 10 \<Longrightarrow> digit_val (digit_char d) = d"
  by (simp add: digit_val_def digit_char_def)

lemma lex_append_less:
  fixes xs ys :: "'a::linorder list"
  shows "length xs = length ys \<Longrightarrow> (xs @ us < ys @ vs) = (xs < ys \<or> xs = ys \<and> us < vs)"
  by (induction xs ys rule: list_induct2) auto

lemma lex_pair_nat:
  fixes a b c d :: nat
  assumes b: "b < k" and d: "d < k"
  shows "(a < c \<or> a = c \<and> b < d) = (k * a + b < k * c + d)"
proof (cases "a < c")
  case True
  then have "Suc a \<le> c" by simp
  then have "k * Suc a \<le> k * c" by (rule mult_le_mono2)
  then show ?thesis using True b by simp
next
  case False
  show ?thesis
  proof (cases "a = c")
    case True
    then show ?thesis by simp
  next
    case ne: False
    with False have "Suc c \<le> a" by simp
    then have "k * Suc c \<le> k * a" by (rule mult_le_mono2)
    then show ?thesis using False ne d by simp
  qed
qed

lemma div_mod_less_iff:
  fixes n m :: nat
  shows "(n div 10 < m div 10 \<or> n div 10 = m div 10 \<and> n mod 10 < m mod 10) = (n < m)"
  using lex_pair_nat [of "n mod 10" 10 "m mod 10" "n div 10" "m div 10"] by simp

lemma dec_less: "n < 10 ^ k \<Longrightarrow> m < 10 ^ k \<Longrightarrow> (dec k n < dec k m) = (n < m)"
proof (induction k arbitrary: n m)
  case 0
  then show ?case by simp
next
  case (Suc k)
  have n: "n div 10 < 10 ^ k" and m: "m div 10 < 10 ^ k"
    using Suc.prems by (simp_all add: less_mult_imp_div_less mult.commute)
  have "(dec k (n div 10) = dec k (m div 10)) =
        (\<not> dec k (n div 10) < dec k (m div 10) \<and> \<not> dec k (m div 10) < dec k (n div 10))"
    by auto
  also have "\<dots> = (n div 10 = m div 10)"
    unfolding Suc.IH [OF n m] Suc.IH [OF m n] by auto
  finally have eq: "(dec k (n div 10) = dec k (m div 10)) = (n div 10 = m div 10)" .
  show ?case
    using Suc.IH [OF n m]
    by (simp add: lex_append_less length_dec eq digit_char_less div_mod_less_iff)
qed

lemma dec_le: "n < 10 ^ k \<Longrightarrow> m < 10 ^ k \<Longrightarrow> (dec k n \<le> dec k m) = (n \<le> m)"
  using dec_less [of m k n] by (simp add: linorder_not_less [symmetric])

lemma dec_eq: "n < 10 ^ k \<Longrightarrow> m < 10 ^ k \<Longrightarrow> (dec k n = dec k m) = (n = m)"
  using dec_le [of n k m] dec_le [of m k n] by auto

lemma str_nat_dec: "10 ^ k \<le> n \<Longrightarrow> n < 10 ^ Suc k \<Longrightarrow> str_nat n = dec (Suc k) n"
proof (induction k arbitrary: n)
  case 0
  then show ?case by (simp add: str_nat.simps [of n])
next
  case (Suc k)
  have ge: "10 \<le> n"
  proof -
    have "(1::nat) \<le> 10 ^ k" by simp
    then have "(10::nat) * 1 \<le> 10 * 10 ^ k" by (rule mult_le_mono2)
    also have "\<dots> = 10 ^ Suc k" by simp
    also have "\<dots> \<le> n" by (rule Suc.prems(1))
    finally show ?thesis by simp
  qed
  have lo: "10 ^ k \<le> n div 10"
    using Suc.prems(1) by (simp add: less_eq_div_iff_mult_less_eq mult.commute)
  have hi: "n div 10 < 10 ^ Suc k"
    using Suc.prems(2) by (simp add: less_mult_imp_div_less mult.commute)
  show ?case
    using ge Suc.IH [OF lo hi] by (simp add: str_nat.simps [of n])
qed

lemma digit_char_0: "digit_char 0 = CHR ''0''"
  unfolding digit_char_def by code_simp

lemma zfill_month: "m < 100 \<Longrightarrow> zfill 2 (str_nat m) = dec 2 m"
proof (cases "m < 10")
  case True
  then show ?thesis
    by (simp add: str_nat.simps [of m] zfill_def numeral_2_eq_2 digit_char_0)
next
  case False
  assume "m < 100"
  with False have "str_nat m = dec (Suc 1) m"
    by (intro str_nat_dec) simp_all
  then show ?thesis
    by (simp add: zfill_def numeral_2_eq_2 length_dec del: dec.simps)
qed

lemma nat_of_str_dec: "n < 10 ^ k \<Longrightarrow> nat_of_str (dec k n) = n"
proof (induction k arbitrary: n)
  case 0
  then show ?case by (simp add: nat_of_str_def)
next
  case (Suc k)
  have n: "n div 10 < 10 ^ k"
    using Suc.prems by (simp add: less_mult_imp_div_less mult.commute)
  show ?case
    using Suc.IH [OF n] by (simp add: nat_of_str_def digit_val_digit_char)
qed


lemma lex_append_le:
  fixes xs ys :: "'a::linorder list"
  shows "length xs = length ys \<Longrightarrow> (xs @ us \<le> ys @ vs) = (xs < ys \<or> xs = ys \<and> us \<le> vs)"
  by (induction xs ys rule: list_induct2) auto

lemma str_int_year: "1000 \<le> y \<Longrightarrow> y \<le> 9999 \<Longrightarrow> str_int y = dec 4 (nat y)"
  using str_nat_dec [of 3 "nat y"] by (simp add: str_int_def del: dec.simps)

lemma zfill_str_int_month: "1 \<le> m \<Longrightarrow> m \<le> 12 \<Longrightarrow> zfill 2 (str_int m) = dec 2 (nat m)"
  using zfill_month [of "nat m"] by (simp add: str_int_def del: dec.simps)

lemma month_number_normalise:
  "in_range q \<Longrightarrow> month_number (normalise q) = dec 2 (nat (sql_month_number q))"
  by (simp add: in_range_def normalise_def Let_def zfill_str_int_month del: dec.simps)

lemma year_month2_normalise:
  "in_range q \<Longrightarrow>
   year_month2 (normalise q) = dec 4 (nat (sql_year q)) @ CHR ''-'' # dec 2 (nat (sql_month_number q))"
  by (simp add: in_range_def normalise_def Let_def zfill_str_int_month str_int_year length_dec
           del: dec.simps)

lemma year_month_key_normalise:
  "in_range q \<Longrightarrow> year_month_key (normalise q) = sql_year q * 100 + sql_month_number q"
proof -
  assume r: "in_range q"
  then have "nat (sql_month_number q) < 10 ^ 2" unfolding in_range_def by auto
  then have "nat_of_str (dec 2 (nat (sql_month_number q))) = nat (sql_month_number q)"
    by (rule nat_of_str_dec)
  then show ?thesis
    using r by (simp add: year_month_key_def month_number_normalise) (simp add: normalise_def Let_def in_range_def)
qed

lemma year_month2_order:
  assumes q: "in_range q" and q': "in_range q'"
  shows "(year_month2 (normalise q) \<le> year_month2 (normalise q'))
       = (year_month_key (normalise q) \<le> year_month_key (normalise q'))"
proof -
  define y where "y = nat (sql_year q)"
  define m where "m = nat (sql_month_number q)"
  define y' where "y' = nat (sql_year q')"
  define m' where "m' = nat (sql_month_number q')"
  note defs = y_def m_def y'_def m'_def
  have b: "y < 10 ^ 4" "y' < 10 ^ 4" "m < 10 ^ 2" "m' < 10 ^ 2"
    using q q' by (auto simp: in_range_def defs)
  have "(year_month2 (normalise q) \<le> year_month2 (normalise q'))
      = (dec 4 y @ CHR ''-'' # dec 2 m \<le> dec 4 y' @ CHR ''-'' # dec 2 m')"
    by (simp only: year_month2_normalise [OF q] year_month2_normalise [OF q'] defs)
  also have "\<dots> = (dec 4 y < dec 4 y' \<or> dec 4 y = dec 4 y' \<and> dec 2 m \<le> dec 2 m')"
    by (simp add: lex_append_le length_dec del: dec.simps)
  also have "\<dots> = (y < y' \<or> y = y' \<and> m \<le> m')"
    by (simp only: dec_less [OF b(1) b(2)] dec_eq [OF b(1) b(2)] dec_le [OF b(3) b(4)])
  also have "\<dots> = (sql_year q * 100 + sql_month_number q \<le> sql_year q' * 100 + sql_month_number q')"
    using q q' unfolding in_range_def defs by auto
  finally show ?thesis
    by (simp only: year_month_key_normalise [OF q] year_month_key_normalise [OF q'])
qed

lemma sorted_map_transfer:
  assumes "\<And>a b. a \<in> set xs \<Longrightarrow> b \<in> set xs \<Longrightarrow> f a \<le> f b \<Longrightarrow> g a \<le> g b"
    and "sorted (map f xs)"
  shows "sorted (map g xs)"
  using assms(2) unfolding sorted_map
  by (rule sorted_wrt_mono_rel [rotated]) (use assms(1) in blast)

lemma set_load: "set (load raw_data) = normalise ` set raw_data"
  by (simp add: load_def sort_values_def)

lemma set_update_plot_filtered_df:
  "set (update_plot_filtered_df cpi_data st se g selected_years base) =
     {r \<in> set cpi_data. state r = st \<and> sector r = se \<and> grp r = g \<and> base_year r = base
        \<and> isin (year r) (resolve_selected_years cpi_data selected_years)}"
  by (auto simp: update_plot_filtered_df_def sort_values_def Let_def)

lemma set_download_plot_filtered_df:
  "set (download_plot_filtered_df cpi_data st se g selected_years base) =
     {r \<in> set cpi_data. state r = st \<and> sector r = se \<and> grp r = g \<and> base_year r = base}"
  by (auto simp: download_plot_filtered_df_def sort_values_def Let_def)

lemma sorted_year_month2_update:
  "sorted (map year_month2 (update_plot_filtered_df cpi_data st se g selected_years base))"
  by (simp add: update_plot_filtered_df_def sort_values_def Let_def)

lemma sorted_year_month2_download:
  "sorted (map year_month2 (download_plot_filtered_df cpi_data st se g selected_years base))"
  by (simp add: download_plot_filtered_df_def sort_values_def Let_def)

lemma state_normalise: "state (normalise q) = sql_state q"
  by (simp add: normalise_def Let_def)




lemma update_plot_fig_Nil:
  "series (update_plot_fig [] plot_type) = []"
  by (simp add: update_plot_fig_def Figure_def add_trace_def update_layout_def Let_def series_def)

lemma fig_data_update_plot_fig_Nil:
  "tr \<in> set (fig_data (update_plot_fig [] plot_type)) \<Longrightarrow> sc_x tr = [] \<and> sc_y tr = []"
  by (auto simp: update_plot_fig_def Figure_def add_trace_def update_layout_def Let_def
           split: if_splits)

lemma update_plot_filtered_df_empty:
  assumes "\<forall>r \<in> set cpi_data. \<not> (state r = st \<and> sector r = se \<and> grp r = g \<and> base_year r = base
             \<and> isin (year r) (resolve_selected_years cpi_data selected_years))"
  shows "update_plot_filtered_df cpi_data st se g selected_years base = []"
proof -
  have "set (update_plot_filtered_df cpi_data st se g selected_years base) = {}"
    using assms unfolding set_update_plot_filtered_df by blast
  then show ?thesis by simp
qed

lemma contains_select_all_sentinel: "contains_select_all (SelStr ''Select All'')"
  by (simp add: contains_select_all_def)

lemma set_resolve_select_all:
  "contains_select_all selected_years \<Longrightarrow>
   set (resolve_selected_years cpi_data selected_years) = YearVal ` year ` set cpi_data"
  by (simp add: resolve_selected_years_def set_unique image_image)

text \<open>Evaluation of the example tables and of the callbacks on them.\<close>

lemma digit_chars:
  "digit_char 0 = CHR ''0''" "digit_char 1 = CHR ''1''" "digit_char 2 = CHR ''2''"
  "digit_char 3 = CHR ''3''" "digit_char 4 = CHR ''4''" "digit_char 5 = CHR ''5''"
  "digit_char 6 = CHR ''6''" "digit_char 7 = CHR ''7''" "digit_char 8 = CHR ''8''"
  "digit_char 9 = CHR ''9''" "digit_char (Suc 0) = CHR ''1''"
  unfolding digit_char_def by code_simp+

lemmas eval_load = load_def sort_values_def sql_example_def normalise_def Let_def str_int_def
  str_nat.simps zfill_def digit_chars less_char_def less_eq_char_def

lemma load_spec_raw:
  "load spec_raw =
    [\<lparr> year = 2023, month = ''January'', month_number = ''01'', state = ''StateA'',
       sector = ''Combined'', grp = ''General'', subgroup = None, base_year = ''2012'',
       inflation = 5, index = 150, year_month = ''202301'', xaxislabel = ''2023-Jan'',
       year_month2 = ''2023-01'' \<rparr>,
     \<lparr> year = 2023, month = ''January'', month_number = ''02'', state = ''StateA'',
       sector = ''Combined'', grp = ''General'', subgroup = None, base_year = ''2012'',
       inflation = 5.3, index = 151, year_month = ''202302'', xaxislabel = ''2023-Jan'',
       year_month2 = ''2023-02'' \<rparr>]"
  by (simp add: spec_raw_def eval_load)

lemma load_two_year_raw:
  "load two_year_raw =
    [\<lparr> year = 2022, month = ''January'', month_number = ''01'', state = ''StateA'',
       sector = ''Combined'', grp = ''General'', subgroup = None, base_year = ''2012'',
       inflation = 4, index = 140, year_month = ''202201'', xaxislabel = ''2022-Jan'',
       year_month2 = ''2022-01'' \<rparr>,
     \<lparr> year = 2023, month = ''January'', month_number = ''01'', state = ''StateA'',
       sector = ''Combined'', grp = ''General'', subgroup = None, base_year = ''2012'',
       inflation = 5, index = 150, year_month = ''202301'', xaxislabel = ''2023-Jan'',
       year_month2 = ''2023-01'' \<rparr>]"
  by (simp add: two_year_raw_def eval_load)

lemma load_two_base_raw:
  "load two_base_raw =
    [\<lparr> year = 2011, month = ''January'', month_number = ''01'', state = ''StateA'',
       sector = ''Combined'', grp = ''General'', subgroup = None, base_year = ''2010'',
       inflation = 3, index = 100, year_month = ''201101'', xaxislabel = ''2011-Jan'',
       year_month2 = ''2011-01'' \<rparr>,
     \<lparr> year = 2023, month = ''January'', month_number = ''01'', state = ''StateA'',
       sector = ''Combined'', grp = ''General'', subgroup = None, base_year = ''2012'',
       inflation = 5, index = 150, year_month = ''202301'', xaxislabel = ''2023-Jan'',
       year_month2 = ''2023-01'' \<rparr>]"
  by (simp add: two_base_raw_def eval_load)

lemma normalise_spec_raw:
  "map normalise spec_raw =
    [\<lparr> year = 2023, month = ''January'', month_number = ''02'', state = ''StateA'',
       sector = ''Combined'', grp = ''General'', subgroup = None, base_year = ''2012'',
       inflation = 5.3, index = 151, year_month = ''202302'', xaxislabel = ''2023-Jan'',
       year_month2 = ''2023-02'' \<rparr>,
     \<lparr> year = 2023, month = ''January'', month_number = ''01'', state = ''StateA'',
       sector = ''Combined'', grp = ''General'', subgroup = None, base_year = ''2012'',
       inflation = 5, index = 150, year_month = ''202301'', xaxislabel = ''2023-Jan'',
       year_month2 = ''2023-01'' \<rparr>]"
  by (simp add: spec_raw_def eval_load)

lemmas eval_callbacks = update_plot_def update_plot_fig_def update_plot_filtered_df_def
  download_plot_def download_plot_fig_def download_plot_filtered_df_def
  update_sector_dropdown_def update_group_dropdown_def update_year_dropdown_def
  resolve_selected_years_def contains_select_all_def iterate_def isin_def sort_values_def
  Figure_def add_trace_def update_layout_def series_def get_default_dropdown_values_def Let_def
  less_char_def less_eq_char_def

lemma download_plot_fig_eq_update_plot_fig:
  "plot_type = ''Index'' \<or> plot_type = ''Inflation'' \<Longrightarrow>
   download_plot_fig rows plot_type = update_plot_fig rows plot_type"
  by (auto simp: download_plot_fig_def update_plot_fig_def)

lemma download_filtered_df_eq_on_select_all:
  assumes "contains_select_all selected_years"
  shows "download_plot_filtered_df cpi_data st se g selected_years base
       = update_plot_filtered_df cpi_data st se g selected_years base"
proof -
  have "isin (year r) (resolve_selected_years cpi_data selected_years)" if "r \<in> set cpi_data" for r
    using that set_resolve_select_all [OF assms, of cpi_data] by (simp add: isin_def)
  then show ?thesis
    unfolding download_plot_filtered_df_def update_plot_filtered_df_def Let_def filter_filter
    by (intro arg_cong [where f = "sort_values year_month2"] filter_cong) auto
qed

lemma mset_update_plot_filtered_df:
  "mset (update_plot_filtered_df cpi_data st se g selected_years base) =
     filter_mset (\<lambda>r. state r = st \<and> sector r = se \<and> grp r = g \<and> base_year r = base
        \<and> isin (year r) (resolve_selected_years cpi_data selected_years)) (mset cpi_data)"
  unfolding update_plot_filtered_df_def sort_values_def Let_def mset_sort mset_filter filter_filter_mset
  by (rule filter_mset_cong) auto

lemma extends_nth: "extends h h' \<Longrightarrow> a < length h \<Longrightarrow> h' ! a = h ! a"
  unfolding extends_def by (metis nth_take)

lemma extends_refl: "extends h h"
  by (simp add: extends_def)

lemma extends_append: "extends h (h @ fs)"
  by (simp add: extends_def)

lemmas df_ops = df_new_def df_copy_def df_filter_def df_sort_values_def

lemma update_year_dropdown_st_frame:
  assumes "cpi_data < length h"
  shows "extends h (snd (update_year_dropdown_st h cpi_data b))"
    and "fst (update_year_dropdown_st h cpi_data b) = update_year_dropdown (h ! cpi_data) b"
  using assms
  by (simp_all add: update_year_dropdown_st_def update_year_dropdown_def df_ops Let_def
        extends_append extends_refl nth_append)

lemma update_sector_dropdown_st_frame:
  assumes "cpi_data < length h"
  shows "extends h (snd (update_sector_dropdown_st h cpi_data s))"
    and "fst (update_sector_dropdown_st h cpi_data s) = update_sector_dropdown (h ! cpi_data) s"
  using assms
  by (simp_all add: update_sector_dropdown_st_def update_sector_dropdown_def df_ops Let_def
        extends_append nth_append)

lemma update_group_dropdown_st_frame:
  assumes "cpi_data < length h"
  shows "extends h (snd (update_group_dropdown_st h cpi_data s))"
    and "fst (update_group_dropdown_st h cpi_data s) = update_group_dropdown (h ! cpi_data) s"
  using assms extends_append [of h "[_, _]"]
  by (simp_all add: update_group_dropdown_st_def update_group_dropdown_def df_ops Let_def
        extends_append nth_append)

lemma update_plot_st_frame:
  assumes "cpi_data < length h"
  shows "extends h (snd (update_plot_st h cpi_data n st se g pt sel b))"
    and "fst (update_plot_st h cpi_data n st se g pt sel b) = update_plot (h ! cpi_data) n st se g pt sel b"
  using assms extends_append [of h "[_, _, _, _, _]"]
  by (simp_all add: update_plot_st_def update_plot_def update_plot_filtered_df_def df_ops Let_def
        extends_refl nth_append)

lemma download_plot_st_frame:
  assumes "cpi_data < length h"
  shows "extends h (snd (download_plot_st f h cpi_data tr n st se g pt sel b))"
    and "fst (download_plot_st f h cpi_data tr n st se g pt sel b)
           = download_plot f (h ! cpi_data) tr n st se g pt sel b"
  using assms extends_append [of h "[_, _, _, _]"]
  by (simp_all add: download_plot_st_def download_plot_def download_plot_filtered_df_def df_ops
        Let_def extends_refl nth_append split: list.splits)

subsection \<open>The gate of the render callback\<close>

text \<open>
  Claim C10. \<^verbatim>\<open>update_plot\<close> builds a figure (one trace and a layout) only when the Apply
  button has been clicked (\<open>n_clicks > 0\<close>) or the state, sector, group and indicator are
  the defaults \<^verbatim>\<open>('All India', 'Combined', 'General', 'Index')\<close>; for every other
  selection without a click it returns \<^verbatim>\<open>go.Figure()\<close>, which has no trace and no layout.
\<close>

theorem update_plot_gate:
  "(0 < n_clicks \<or> (st, se, g, plot_type) = (''All India'', ''Combined'', ''General'', ''Index'') \<longrightarrow>
      update_plot cpi_data n_clicks st se g plot_type selected_years base
        = update_plot_fig (update_plot_filtered_df cpi_data st se g selected_years base) plot_type
      \<and> length (fig_data (update_plot cpi_data n_clicks st se g plot_type selected_years base)) = 1
      \<and> fig_layout (update_plot cpi_data n_clicks st se g plot_type selected_years base) \<noteq> None)
   \<and> (n_clicks \<le> 0 \<and> (st, se, g, plot_type) \<noteq> (''All India'', ''Combined'', ''General'', ''Index'') \<longrightarrow>
      update_plot cpi_data n_clicks st se g plot_type selected_years base = Figure)
   \<and> fig_data Figure = [] \<and> fig_layout Figure = None
   \<and> (update_plot cpi_data n_clicks st se g plot_type selected_years base \<noteq> Figure \<longrightarrow>
      0 < n_clicks \<or> (st, se, g, plot_type) = (''All India'', ''Combined'', ''General'', ''Index''))"
  by (simp add: update_plot_def update_plot_fig_def get_default_dropdown_values_def Figure_def
        add_trace_def update_layout_def Let_def)

theorem update_plot_gate_witness:
  "length (fig_data (update_plot (load spec_raw) 0 ''All India'' ''Combined'' ''General'' ''Index''
             (SelStr ''Select All'') ''2012'')) = 1
   \<and> length (fig_data (update_plot (load spec_raw) 3 ''StateA'' ''Combined'' ''General'' ''Inflation''
             (SelStr ''Select All'') ''2012'')) = 1
   \<and> update_plot (load spec_raw) 0 ''StateA'' ''Combined'' ''General'' ''Index''
             (SelStr ''Select All'') ''2012'' = Figure"
proof -
  have h1: "0 < (0::int) \<or> (''All India'', ''Combined'', ''General'', ''Index'')
              = (''All India'', ''Combined'', ''General'', ''Index'')"
    by simp
  have h2: "0 < (3::int) \<or> (''StateA'', ''Combined'', ''General'', ''Inflation'')
              = (''All India'', ''Combined'', ''General'', ''Index'')"
    by simp
  have h3: "(0::int) \<le> 0 \<and> (''StateA'', ''Combined'', ''General'', ''Index'')
              \<noteq> (''All India'', ''Combined'', ''General'', ''Index'')"
    by simp
  from h1 have a: "length (fig_data (update_plot (load spec_raw) 0 ''All India'' ''Combined'' ''General''
             ''Index'' (SelStr ''Select All'') ''2012'')) = 1"
    using update_plot_gate [of 0 "''All India''" "''Combined''" "''General''" "''Index''" "load spec_raw"
          "SelStr ''Select All''" "''2012''"] by blast
  from h2 have b: "length (fig_data (update_plot (load spec_raw) 3 ''StateA'' ''Combined'' ''General''
             ''Inflation'' (SelStr ''Select All'') ''2012'')) = 1"
    using update_plot_gate [of 3 "''StateA''" "''Combined''" "''General''" "''Inflation''" "load spec_raw"
          "SelStr ''Select All''" "''2012''"] by blast
  from h3 have c: "update_plot (load spec_raw) 0 ''StateA'' ''Combined'' ''General'' ''Index''
             (SelStr ''Select All'') ''2012'' = Figure"
    using update_plot_gate [of 0 "''StateA''" "''Combined''" "''General''" "''Index''" "load spec_raw"
          "SelStr ''Select All''" "''2012''"] by blast
  from a b c show ?thesis by blast
qed

subsection \<open>Chronological order of the selected rows\<close>

text \<open>
  Claim C4. Take any frame whose rows are normalised query rows with a four-digit year and a
  month number from 1 to 12, in any order. The rows selected from it by the render callback
  (and by the download callback) are in non-decreasing order of the integer key
  \<open>year*100 + month_number\<close>. The code sorts the selection by the string
  \<^verbatim>\<open>year_month2\<close> (\<^verbatim>\<open>"{year}-{month_number:02d}"\<close>, line 328); on such rows the string
  order and the integer order are the same order, and the key read off a normalised row is
  the query's \<open>year*100 + month_number\<close>.
\<close>

theorem filtered_df_sorted_by_year_month_key:
  assumes "set cpi_data \<subseteq> normalise ` {q. in_range q}"
  shows "sorted (map year_month_key
            (update_plot_filtered_df cpi_data st se g selected_years base))
       \<and> sorted (map year_month_key
            (download_plot_filtered_df cpi_data st se g selected_years base))
       \<and> (\<forall>r \<in> set cpi_data. \<forall>r' \<in> set cpi_data.
            (year_month2 r \<le> year_month2 r') = (year_month_key r \<le> year_month_key r'))
       \<and> (\<forall>q. in_range q \<longrightarrow>
            year_month_key (normalise q) = sql_year q * 100 + sql_month_number q)"
proof -
  have ord: "(year_month2 r \<le> year_month2 r') = (year_month_key r \<le> year_month_key r')"
    if "r \<in> set cpi_data" and "r' \<in> set cpi_data" for r r'
  proof -
    from that assms obtain q q' where "r = normalise q" "in_range q" "r' = normalise q'" "in_range q'"
      by blast
    then show ?thesis by (simp add: year_month2_order)
  qed
  have up: "sorted (map year_month_key
              (update_plot_filtered_df cpi_data st se g selected_years base))"
  proof (rule sorted_map_transfer [OF _ sorted_year_month2_update])
    fix a b
    assume "a \<in> set (update_plot_filtered_df cpi_data st se g selected_years base)"
      and "b \<in> set (update_plot_filtered_df cpi_data st se g selected_years base)"
      and "year_month2 a \<le> year_month2 b"
    then show "year_month_key a \<le> year_month_key b"
      using ord [of a b] by (simp add: set_update_plot_filtered_df)
  qed
  have down: "sorted (map year_month_key
              (download_plot_filtered_df cpi_data st se g selected_years base))"
  proof (rule sorted_map_transfer [OF _ sorted_year_month2_download])
    fix a b
    assume "a \<in> set (download_plot_filtered_df cpi_data st se g selected_years base)"
      and "b \<in> set (download_plot_filtered_df cpi_data st se g selected_years base)"
      and "year_month2 a \<le> year_month2 b"
    then show "year_month_key a \<le> year_month_key b"
      using ord [of a b] by (simp add: set_download_plot_filtered_df)
  qed
  have key: "\<forall>q. in_range q \<longrightarrow>
            year_month_key (normalise q) = sql_year q * 100 + sql_month_number q"
    by (simp add: year_month_key_normalise)
  from up down ord key show ?thesis by blast
qed

theorem filtered_df_sorted_by_year_month_key_witness:
  "in_range (sql_example 2023 2 ''StateA'' ''2012'' 151 5.3)
   \<and> in_range (sql_example 2023 1 ''StateA'' ''2012'' 150 5)
   \<and> map year_month_key (map normalise spec_raw) = [202302, 202301]
   \<and> sorted (map year_month_key
        (update_plot_filtered_df (map normalise spec_raw) ''StateA'' ''Combined'' ''General''
           (SelStr ''Select All'') ''2012''))
   \<and> map year_month_key
        (update_plot_filtered_df (map normalise spec_raw) ''StateA'' ''Combined'' ''General''
           (SelStr ''Select All'') ''2012'') = [202301, 202302]
   \<and> sorted (map year_month_key
        (update_plot_filtered_df (load spec_raw) ''StateA'' ''Combined'' ''General''
           (SelStr ''Select All'') ''2012''))"
proof -
  have r: "in_range (sql_example 2023 2 ''StateA'' ''2012'' 151 5.3)"
          "in_range (sql_example 2023 1 ''StateA'' ''2012'' 150 5)"
    by (simp_all add: sql_example_def in_range_def)
  then have h: "set (map normalise spec_raw) \<subseteq> normalise ` {q. in_range q}"
    by (simp add: spec_raw_def)
  have h': "set (load spec_raw) \<subseteq> normalise ` {q. in_range q}"
    using h by (simp add: set_load)
  have u: "map year_month_key (map normalise spec_raw) = [202302, 202301]"
    by (simp add: normalise_spec_raw year_month_key_def nat_of_str_def digit_val_def)
  have s: "sorted (map year_month_key
        (update_plot_filtered_df (map normalise spec_raw) ''StateA'' ''Combined'' ''General''
           (SelStr ''Select All'') ''2012''))"
    by (rule filtered_df_sorted_by_year_month_key [OF h, THEN conjunct1])
  have e: "map year_month_key
        (update_plot_filtered_df (map normalise spec_raw) ''StateA'' ''Combined'' ''General''
           (SelStr ''Select All'') ''2012'') = [202301, 202302]"
    by (simp add: normalise_spec_raw eval_callbacks year_month_key_def nat_of_str_def digit_val_def)
  have l: "sorted (map year_month_key
        (update_plot_filtered_df (load spec_raw) ''StateA'' ''Combined'' ''General''
           (SelStr ''Select All'') ''2012''))"
    by (rule filtered_df_sorted_by_year_month_key [OF h', THEN conjunct1])
  from r u s e l show ?thesis by blast
qed

subsection \<open>Projection of the selected rows into a trace\<close>




subsection \<open>A selection without rows\<close>

text \<open>
  Claim C8. When no row of the table satisfies the filter (for example, the state does not
  occur in the table), \<^verbatim>\<open>update_plot\<close> still returns a figure: the selected frame is empty,
  and the figure is the one built from no rows, whose trace has no \<open>x\<close> and no \<open>y\<close> value
  (or \<^verbatim>\<open>go.Figure()\<close> when the gate is closed). The callback has no failing branch.
\<close>

theorem update_plot_no_match:
  assumes "\<forall>r \<in> set cpi_data. \<not> (state r = st \<and> sector r = se \<and> grp r = g \<and> base_year r = base
             \<and> isin (year r) (resolve_selected_years cpi_data selected_years))"
  shows "update_plot_filtered_df cpi_data st se g selected_years base = []
       \<and> update_plot cpi_data n_clicks st se g plot_type selected_years base
           = (if 0 < n_clicks \<or> (st, se, g, plot_type) = get_default_dropdown_values
              then update_plot_fig [] plot_type else Figure)
       \<and> series (update_plot cpi_data n_clicks st se g plot_type selected_years base) = []
       \<and> (\<forall>tr \<in> set (fig_data (update_plot cpi_data n_clicks st se g plot_type selected_years base)).
             sc_x tr = [] \<and> sc_y tr = [])"
proof -
  have e: "update_plot_filtered_df cpi_data st se g selected_years base = []"
    using assms by (rule update_plot_filtered_df_empty)
  have u: "update_plot cpi_data n_clicks st se g plot_type selected_years base
           = (if 0 < n_clicks \<or> (st, se, g, plot_type) = get_default_dropdown_values
              then update_plot_fig [] plot_type else Figure)"
    by (simp add: update_plot_def e)
  have s: "series (update_plot cpi_data n_clicks st se g plot_type selected_years base) = []"
    unfolding u by (simp add: update_plot_fig_Nil) (simp add: series_def Figure_def)
  have t: "\<forall>tr \<in> set (fig_data (update_plot cpi_data n_clicks st se g plot_type selected_years base)).
             sc_x tr = [] \<and> sc_y tr = []"
    unfolding u using fig_data_update_plot_fig_Nil by (auto simp: Figure_def)
  from e u s t show ?thesis by blast
qed

theorem update_plot_no_match_witness:
  "state (normalise (sql_example 2023 2 ''StateA'' ''2012'' 151 5.3)) \<noteq> ''StateB''
   \<and> state (normalise (sql_example 2023 1 ''StateA'' ''2012'' 150 5)) \<noteq> ''StateB''
   \<and> series (update_plot (load spec_raw) 1 ''StateB'' ''Combined'' ''General'' ''Index''
               (SelStr ''Select All'') ''2012'') = []
   \<and> map sc_x (fig_data (update_plot (load spec_raw) 1 ''StateB'' ''Combined'' ''General'' ''Index''
               (SelStr ''Select All'') ''2012'')) = [[]]"
proof -
  have a: "state (normalise (sql_example 2023 2 ''StateA'' ''2012'' 151 5.3)) \<noteq> ''StateB''"
          "state (normalise (sql_example 2023 1 ''StateA'' ''2012'' 150 5)) \<noteq> ''StateB''"
    by (simp_all add: state_normalise sql_example_def)
  then have h: "\<forall>r \<in> set (load spec_raw). \<not> (state r = ''StateB'' \<and> sector r = ''Combined''
             \<and> grp r = ''General'' \<and> base_year r = ''2012''
             \<and> isin (year r) (resolve_selected_years (load spec_raw) (SelStr ''Select All'')))"
    by (simp add: set_load spec_raw_def)
  note n = update_plot_no_match [OF h, of 1 "''Index''"]
  from n have s: "series (update_plot (load spec_raw) 1 ''StateB'' ''Combined'' ''General'' ''Index''
               (SelStr ''Select All'') ''2012'') = []"
    by blast
  from n have "update_plot (load spec_raw) 1 ''StateB'' ''Combined'' ''General'' ''Index''
               (SelStr ''Select All'') ''2012'' = update_plot_fig [] ''Index''"
    by simp
  then have x: "map sc_x (fig_data (update_plot (load spec_raw) 1 ''StateB'' ''Combined'' ''General''
               ''Index'' (SelStr ''Select All'') ''2012'')) = [[]]"
    by (simp add: update_plot_fig_def Figure_def add_trace_def update_layout_def Let_def)
  from a s x show ?thesis by blast
qed

subsection \<open>Resolving the selected years\<close>

text \<open>
  Claim C5. If the year selection is the sentinel \<^verbatim>\<open>'Select All'\<close> or contains it, the
  resolved years are the distinct years of the whole table; otherwise they are the elements
  of the selection with the sentinel filtered out (so a list without the sentinel is kept
  as it is).
\<close>

theorem resolve_selected_years_cases:
  "(contains_select_all selected_years \<longrightarrow>
       set (resolve_selected_years cpi_data selected_years) = YearVal ` year ` set cpi_data
       \<and> distinct (resolve_selected_years cpi_data selected_years))
   \<and> (\<not> contains_select_all selected_years \<longrightarrow>
       resolve_selected_years cpi_data selected_years
         = filter (\<lambda>y. y \<noteq> StrVal ''Select All'') (iterate selected_years)
       \<and> StrVal ''Select All'' \<notin> set (resolve_selected_years cpi_data selected_years))
   \<and> contains_select_all (SelStr ''Select All'')
   \<and> contains_select_all (SelList vs) = (StrVal ''Select All'' \<in> set vs)
   \<and> (StrVal ''Select All'' \<notin> set vs \<longrightarrow> resolve_selected_years cpi_data (SelList vs) = vs)"
proof -
  have a: "contains_select_all selected_years \<longrightarrow>
       set (resolve_selected_years cpi_data selected_years) = YearVal ` year ` set cpi_data
       \<and> distinct (resolve_selected_years cpi_data selected_years)"
    by (simp add: set_resolve_select_all)
       (simp add: resolve_selected_years_def distinct_map distinct_unique inj_on_def)
  have b: "\<not> contains_select_all selected_years \<longrightarrow>
       resolve_selected_years cpi_data selected_years
         = filter (\<lambda>y. y \<noteq> StrVal ''Select All'') (iterate selected_years)
       \<and> StrVal ''Select All'' \<notin> set (resolve_selected_years cpi_data selected_years)"
    by (simp add: resolve_selected_years_def)
  have c: "contains_select_all (SelList vs) = (StrVal ''Select All'' \<in> set vs)"
    by (simp add: contains_select_all_def)
  have d: "StrVal ''Select All'' \<notin> set vs \<longrightarrow> resolve_selected_years cpi_data (SelList vs) = vs"
    by (auto simp: resolve_selected_years_def contains_select_all_def iterate_def filter_id_conv)
  from a b c d contains_select_all_sentinel show ?thesis by blast
qed

theorem resolve_selected_years_cases_witness:
  "contains_select_all (SelStr ''Select All'')
   \<and> set (resolve_selected_years (load two_year_raw) (SelStr ''Select All''))
       = YearVal ` year ` set (load two_year_raw)
   \<and> resolve_selected_years (load two_year_raw) (SelStr ''Select All'') = [YearVal 2022, YearVal 2023]
   \<and> StrVal ''Select All'' \<notin> set [YearVal 2023]
   \<and> resolve_selected_years (load two_year_raw) (SelList [YearVal 2023]) = [YearVal 2023]"
proof -
  note t = resolve_selected_years_cases [of "SelStr ''Select All''" "load two_year_raw" "[YearVal 2023]"]
  have a: "contains_select_all (SelStr ''Select All'')" using t by blast
  with t have b: "set (resolve_selected_years (load two_year_raw) (SelStr ''Select All''))
       = YearVal ` year ` set (load two_year_raw)" by blast
  have c: "resolve_selected_years (load two_year_raw) (SelStr ''Select All'') = [YearVal 2022, YearVal 2023]"
    by (simp add: load_two_year_raw eval_callbacks)
  have d: "StrVal ''Select All'' \<notin> set [YearVal 2023]" by simp
  with t have e: "resolve_selected_years (load two_year_raw) (SelList [YearVal 2023]) = [YearVal 2023]"
    by blast
  from a b c d e show ?thesis by blast
qed

subsection \<open>The sentinel and the base year\<close>

text \<open>
  Claim C3 says that resolving the sentinel for a selected base year gives exactly the years
  of the rows with that base year. The code resolves the sentinel with
  \<^verbatim>\<open>cpi_data['year'].unique()\<close>, the years of the whole table, in both callbacks: with two
  base years in the table the resolved set is larger than the years of one of them.
\<close>

theorem resolve_select_all_not_base_restricted:
  "set (resolve_selected_years (load two_base_raw) (SelStr ''Select All''))
     \<noteq> set (map (YearVal \<circ> year) (filter (\<lambda>r. base_year r = ''2012'') (load two_base_raw)))"
proof -
  have a: "resolve_selected_years (load two_base_raw) (SelStr ''Select All'')
             = [YearVal 2011, YearVal 2023]"
    by (simp add: load_two_base_raw eval_callbacks)
  have b: "map (YearVal \<circ> year) (filter (\<lambda>r. base_year r = ''2012'') (load two_base_raw))
             = [YearVal 2023]"
    by (simp add: load_two_base_raw eval_callbacks)
  show ?thesis unfolding a b by simp
qed

text \<open>
  Claim C3 as amended. Resolving the sentinel gives exactly the set of years present in the
  whole table, whatever the base year; this set contains every year of the rows with the
  selected base year, and the rows the render callback then selects are those selected with
  the years of that base year, because the base year is a filter of its own.
\<close>

theorem resolve_select_all_whole_table:
  assumes "contains_select_all selected_years"
  shows "set (resolve_selected_years cpi_data selected_years) = YearVal ` year ` set cpi_data
       \<and> YearVal ` year ` {r \<in> set cpi_data. base_year r = base}
           \<subseteq> set (resolve_selected_years cpi_data selected_years)
       \<and> update_plot_filtered_df cpi_data st se g selected_years base
           = sort_values year_month2
               (filter (\<lambda>r. year r \<in> year ` {r' \<in> set cpi_data. base_year r' = base}
                           \<and> state r = st \<and> sector r = se \<and> grp r = g \<and> base_year r = base)
                  cpi_data)"
proof -
  have a: "set (resolve_selected_years cpi_data selected_years) = YearVal ` year ` set cpi_data"
    using assms by (rule set_resolve_select_all)
  have b: "YearVal ` year ` {r \<in> set cpi_data. base_year r = base}
           \<subseteq> set (resolve_selected_years cpi_data selected_years)"
    unfolding a by blast
  have c: "update_plot_filtered_df cpi_data st se g selected_years base
           = sort_values year_month2
               (filter (\<lambda>r. year r \<in> year ` {r' \<in> set cpi_data. base_year r' = base}
                           \<and> state r = st \<and> sector r = se \<and> grp r = g \<and> base_year r = base)
                  cpi_data)"
    unfolding update_plot_filtered_df_def Let_def filter_filter isin_def a
    by (rule arg_cong [where f = "sort_values year_month2"], rule filter_cong) auto
  from a b c show ?thesis by blast
qed

theorem resolve_select_all_whole_table_witness:
  "contains_select_all (SelStr ''Select All'')
   \<and> set (resolve_selected_years (load two_base_raw) (SelStr ''Select All''))
       = YearVal ` year ` set (load two_base_raw)
   \<and> resolve_selected_years (load two_base_raw) (SelStr ''Select All'') = [YearVal 2011, YearVal 2023]
   \<and> map year (update_plot_filtered_df (load two_base_raw) ''StateA'' ''Combined'' ''General''
                (SelStr ''Select All'') ''2012'') = [2023]"
proof -
  have a: "contains_select_all (SelStr ''Select All'')" by (rule contains_select_all_sentinel)
  have b: "set (resolve_selected_years (load two_base_raw) (SelStr ''Select All''))
       = YearVal ` year ` set (load two_base_raw)"
    by (rule resolve_select_all_whole_table [OF a, THEN conjunct1])
  have c: "resolve_selected_years (load two_base_raw) (SelStr ''Select All'') = [YearVal 2011, YearVal 2023]"
    by (simp add: load_two_base_raw eval_callbacks)
  have d: "map year (update_plot_filtered_df (load two_base_raw) ''StateA'' ''Combined'' ''General''
                (SelStr ''Select All'') ''2012'') = [2023]"
    by (simp add: load_two_base_raw eval_callbacks)
  from a b c d show ?thesis by blast
qed

subsection \<open>The download callback against the render callback\<close>

text \<open>
  Claim C1 (and the download half of claim C2). The two callbacks build their figures with
  the same style arguments, and they select the same rows when the year selection contains
  \<^verbatim>\<open>'Select All'\<close> (\<open>download_plot_fig_eq_update_plot_fig\<close>,
  \<open>download_filtered_df_eq_on_select_all\<close>). With an explicit year selection they differ:
  \<^verbatim>\<open>download_plot\<close> computes \<^verbatim>\<open>selected_years\<close> and never filters by it. On a table with
  the years 2022 and 2023 and the selection \<^verbatim>\<open>[2023]\<close>, the rendered series has the row of
  2023 and the downloaded figure has both rows.
\<close>

theorem download_plot_ignores_selected_years:
  "series (update_plot (load two_year_raw) 1 ''StateA'' ''Combined'' ''General'' ''Index''
             (SelList [YearVal 2023]) ''2012'')
     = [(''2023-01'', 150)]
   \<and> map_option (\<lambda>(fig, filename). (series fig, filename))
        (download_plot (\<lambda>fig. fig) (load two_year_raw) [''download-button.n_clicks''] 1
           ''StateA'' ''Combined'' ''General'' ''Index'' (SelList [YearVal 2023]) ''2012'')
     = Some ([(''2022-01'', 140), (''2023-01'', 150)], ''plot.svg'')"
  by (simp add: load_two_year_raw eval_callbacks)

text \<open>
  Claim C2, at the same input: the selection is \<^verbatim>\<open>[2023]\<close>, the render callback keeps the
  row of 2023 only, and the frame of the download callback contains the row of 2022, whose
  year is not in the resolved year set.
\<close>

theorem download_plot_filtered_df_keeps_unselected_year:
  "resolve_selected_years (load two_year_raw) (SelList [YearVal 2023]) = [YearVal 2023]
   \<and> map year (update_plot_filtered_df (load two_year_raw) ''StateA'' ''Combined'' ''General''
                (SelList [YearVal 2023]) ''2012'') = [2023]
   \<and> map year (download_plot_filtered_df (load two_year_raw) ''StateA'' ''Combined'' ''General''
                (SelList [YearVal 2023]) ''2012'') = [2022, 2023]"
  by (simp add: load_two_year_raw eval_callbacks)

subsection \<open>The sector menu\<close>

text \<open>
  Claim C6 says that the sectors offered for a state are among the sectors offered for an
  unset state, which would be those of the whole table. \<^verbatim>\<open>update_sector_dropdown\<close> compares
  the state column with its argument and has no case for \<^verbatim>\<open>None\<close>, so for an unset state
  it offers nothing.
\<close>

theorem sectors_of_state_not_within_sectors_of_None:
  "\<not> set (update_sector_dropdown (load spec_raw) (Some ''StateA''))
       \<subseteq> set (update_sector_dropdown (load spec_raw) None)"
proof -
  have a: "update_sector_dropdown (load spec_raw) (Some ''StateA'') = [(''Combined'', ''Combined'')]"
    by (simp add: load_spec_raw eval_callbacks)
  have b: "update_sector_dropdown (load spec_raw) None = []"
    by (simp add: update_sector_dropdown_def)
  show ?thesis unfolding a b by simp
qed

text \<open>
  Claim C6 as amended. For every table and every state, the sectors offered are those of the
  rows of that state, a subset of the sectors observed across the whole table; for an unset
  state (\<^verbatim>\<open>None\<close>) the callback offers no sector.
\<close>

theorem update_sector_dropdown_subset:
  "set (update_sector_dropdown cpi_data selected_state)
      \<subseteq> (\<lambda>s. (s, s)) ` sector ` set cpi_data
   \<and> set (update_sector_dropdown cpi_data (Some st))
      = (\<lambda>s. (s, s)) ` sector ` {r \<in> set cpi_data. state r = st}
   \<and> update_sector_dropdown cpi_data None = []"
  by (auto simp: update_sector_dropdown_def set_unique)

theorem update_sector_dropdown_subset_witness:
  "set (update_sector_dropdown (load spec_raw) (Some ''StateA''))
      \<subseteq> (\<lambda>s. (s, s)) ` sector ` set (load spec_raw)
   \<and> update_sector_dropdown (load spec_raw) (Some ''StateA'') = [(''Combined'', ''Combined'')]
   \<and> update_sector_dropdown (load spec_raw) None = []"
proof -
  have a: "update_sector_dropdown (load spec_raw) (Some ''StateA'') = [(''Combined'', ''Combined'')]"
    by (simp add: load_spec_raw eval_callbacks)
  from update_sector_dropdown_subset [of "load spec_raw" "Some ''StateA''"] a
  show ?thesis by simp
qed

subsection \<open>The shared table is only read\<close>

text \<open>
  Claim C9. Every callback --- the three menu callbacks, the render callback and the download
  callback --- leaves the loaded table as it was: run on a store in which \<^verbatim>\<open>cpi_data\<close> is an
  object, each callback only adds new frames, so that the frame at the address of
  \<^verbatim>\<open>cpi_data\<close> (its rows, their fields and their order) and every other object that
  existed before are unchanged. The value each callback returns is the one of its functional
  model applied to that table.
\<close>

theorem callbacks_leave_cpi_data_unchanged:
  assumes "cpi_data < length h"
  shows "snd (update_year_dropdown_st h cpi_data sel_base) ! cpi_data = h ! cpi_data
       \<and> extends h (snd (update_year_dropdown_st h cpi_data sel_base))
       \<and> fst (update_year_dropdown_st h cpi_data sel_base) = update_year_dropdown (h ! cpi_data) sel_base
       \<and> snd (update_sector_dropdown_st h cpi_data sel_state) ! cpi_data = h ! cpi_data
       \<and> extends h (snd (update_sector_dropdown_st h cpi_data sel_state))
       \<and> fst (update_sector_dropdown_st h cpi_data sel_state)
            = update_sector_dropdown (h ! cpi_data) sel_state
       \<and> snd (update_group_dropdown_st h cpi_data sel_sector) ! cpi_data = h ! cpi_data
       \<and> extends h (snd (update_group_dropdown_st h cpi_data sel_sector))
       \<and> fst (update_group_dropdown_st h cpi_data sel_sector)
            = update_group_dropdown (h ! cpi_data) sel_sector
       \<and> snd (update_plot_st h cpi_data n_clicks st se g plot_type selected_years base) ! cpi_data
            = h ! cpi_data
       \<and> extends h (snd (update_plot_st h cpi_data n_clicks st se g plot_type selected_years base))
       \<and> fst (update_plot_st h cpi_data n_clicks st se g plot_type selected_years base)
            = update_plot (h ! cpi_data) n_clicks st se g plot_type selected_years base
       \<and> snd (download_plot_st to_image h cpi_data triggered n_clicks st se g plot_type
                 selected_years base) ! cpi_data = h ! cpi_data
       \<and> extends h (snd (download_plot_st to_image h cpi_data triggered n_clicks st se g plot_type
                 selected_years base))
       \<and> fst (download_plot_st to_image h cpi_data triggered n_clicks st se g plot_type
                 selected_years base)
            = download_plot to_image (h ! cpi_data) triggered n_clicks st se g plot_type
                 selected_years base"
  using assms
    update_year_dropdown_st_frame [OF assms, of sel_base]
    update_sector_dropdown_st_frame [OF assms, of sel_state]
    update_group_dropdown_st_frame [OF assms, of sel_sector]
    update_plot_st_frame [OF assms, of n_clicks st se g plot_type selected_years base]
    download_plot_st_frame [OF assms, of to_image triggered n_clicks st se g plot_type
      selected_years base]
  by (simp add: extends_nth)

theorem callbacks_leave_cpi_data_unchanged_witness:
  "(0::nat) < length [load spec_raw]
   \<and> snd (update_plot_st [load spec_raw] 0 1 ''StateA'' ''Combined'' ''General'' ''Index''
            (SelList [YearVal 2023]) ''2012'') ! 0 = load spec_raw
   \<and> snd (download_plot_st (\<lambda>fig. fig) [load spec_raw] 0 [''download-button.n_clicks''] 1 ''StateA''
            ''Combined'' ''General'' ''Index'' (SelList [YearVal 2023]) ''2012'') ! 0 = load spec_raw
   \<and> snd (update_sector_dropdown_st [load spec_raw] 0 (Some ''StateA'')) ! 0 = load spec_raw
   \<and> length (snd (update_plot_st [load spec_raw] 0 1 ''StateA'' ''Combined'' ''General'' ''Index''
            (SelList [YearVal 2023]) ''2012'')) = 6"
proof -
  have h: "(0::nat) < length [load spec_raw]" by simp
  note t = callbacks_leave_cpi_data_unchanged [OF h, of "Some ''2012''" "Some ''StateA''"
      "Some ''Combined''" 1 "''StateA''" "''Combined''" "''General''" "''Index''"
      "SelList [YearVal 2023]" "''2012''" "\<lambda>fig. fig" "[''download-button.n_clicks'']"]
  have a: "snd (update_plot_st [load spec_raw] 0 1 ''StateA'' ''Combined'' ''General'' ''Index''
            (SelList [YearVal 2023]) ''2012'') ! 0 = load spec_raw"
    using t by simp
  have b: "snd (download_plot_st (\<lambda>fig. fig) [load spec_raw] 0 [''download-button.n_clicks''] 1
            ''StateA'' ''Combined'' ''General'' ''Index'' (SelList [YearVal 2023]) ''2012'') ! 0
           = load spec_raw"
    using t by simp
  have c: "snd (update_sector_dropdown_st [load spec_raw] 0 (Some ''StateA'')) ! 0 = load spec_raw"
    using t by simp
  have d: "length (snd (update_plot_st [load spec_raw] 0 1 ''StateA'' ''Combined'' ''General'' ''Index''
            (SelList [YearVal 2023]) ''2012'')) = 6"
    by (simp add: update_plot_st_def df_ops get_default_dropdown_values_def Let_def)
  from h a b c d show ?thesis by blast
qed

end
